theory Spec2Isabelle
  imports Main "HOL-Library.AList"
begin

section \<open>JavaScript values\<close>

text \<open>
  The values that \<^verbatim>\<open>src/lib/model.ts\<close> handles: record objects, the strings it uses as
  identifiers and collection names, and the primitives a record field may hold. An object
  is a finite map from property names to values; the order of properties plays no role in
  the code. Numbers are kept as integers.
\<close>

datatype jsval =
    Undefined
  | Null
  | Bool bool
  | Num int
  | Str string
  | Obj "string \<rightharpoonup> jsval"

type_synonym obj = "string \<rightharpoonup> jsval"

text \<open>JavaScript truthiness, as tested by \<^verbatim>\<open>!x\<close>.\<close>

fun truthy :: "jsval \<Rightarrow> bool" where
  "truthy Undefined = False"
| "truthy Null = False"
| "truthy (Bool b) = b"
| "truthy (Num n) = (n \<noteq> 0)"
| "truthy (Str s) = (s \<noteq> [])"
| "truthy (Obj fs) = True"

text \<open>Property access \<^verbatim>\<open>value[index]\<close> on an object: a missing property reads as \<^verbatim>\<open>undefined\<close>.\<close>

definition get_prop :: "obj \<Rightarrow> string \<Rightarrow> jsval" where
  "get_prop fs f = (case fs f of Some v \<Rightarrow> v | None \<Rightarrow> Undefined)"

text \<open>
  Property access on a value read back from the store. The code only reaches it for a
  truthy value; a truthy primitive has no own properties (properties inherited from a
  prototype, such as the length of a string, are not modelled).
\<close>

fun field :: "jsval \<Rightarrow> string \<Rightarrow> jsval" where
  "field (Obj fs) f = get_prop fs f"
| "field v f = Undefined"

text \<open>Object spread \<^verbatim>\<open>{ ...a, ...b }\<close>: the properties of \<open>b\<close> override those of \<open>a\<close>.\<close>

definition spread :: "obj \<Rightarrow> obj \<Rightarrow> obj" where
  "spread a b = a ++ b"

text \<open>
  A promise that has not been awaited. It is an object, so it is truthy whatever it will
  resolve to, and it has no own enumerable properties, so spreading it contributes nothing.
\<close>

datatype 'a promise = Promise 'a

fun promise_truthy :: "'a promise \<Rightarrow> bool" where
  "promise_truthy (Promise r) = True"

fun promise_props :: "'a promise \<Rightarrow> obj" where
  "promise_props (Promise r) = Map.empty"

section \<open>The key-value store\<close>

text \<open>
  Modelled from the spec: the transactional key-value store (\<^verbatim>\<open>Deno.Kv\<close>), which is not
  part of the repository. The spec (section 6) requires of it
  \<^item> \<^verbatim>\<open>get(key) -> value or absent\<close>,
  \<^item> \<^verbatim>\<open>list(keyPrefix) -> sequence of (key, value)\<close>,
  \<^item> an atomic transaction builder with chained \<^verbatim>\<open>set(key, value)\<close> and \<^verbatim>\<open>delete(key)\<close>,
    committed as a unit, reporting success or a failure outcome.
  A key is a tuple of key parts. The store is a list of entries with at most one entry per
  key; \<open>kv_list\<close> yields the entries below a prefix in the order the list holds them
  (the store's key order is not modelled). Calls run one after the other against a single
  copy, so the consistency level of a read has no effect and is left out.

  Two things the source relies on are taken from the interface of the store it names.
  First, what \<^verbatim>\<open>kv.get\<close> hands back is an entry: an object that carries the key that was
  read and, under \<^verbatim>\<open>.value\<close>, the stored value or \<^verbatim>\<open>null\<close> (version stamps are left out).
  Second, a key part must be a string, a number or a boolean (\<^verbatim>\<open>Deno.KvKeyPart\<close>; byte
  arrays and big integers are not among the values modelled here): a read, a write or a
  commit that names a key with any other part, such as \<^verbatim>\<open>undefined\<close>, fails with a
  \<^verbatim>\<open>TypeError\<close> and changes nothing. The code registers no check on its transactions, so
  a commit whose keys are all valid applies all of its mutations. Size limits are not
  modelled.
\<close>

type_synonym kvkey = "jsval list"

type_synonym kv = "(kvkey \<times> jsval) list"

datatype error = TypeError

datatype commit_result = Committed

fun key_part_ok :: "jsval \<Rightarrow> bool" where
  "key_part_ok (Str s) = True"
| "key_part_ok (Num n) = True"
| "key_part_ok (Bool b) = True"
| "key_part_ok Undefined = False"
| "key_part_ok Null = False"
| "key_part_ok (Obj fs) = False"

definition valid_key :: "kvkey \<Rightarrow> bool" where
  "valid_key k \<longleftrightarrow> list_all key_part_ok k"

text \<open>The state of the store: what is held under a key, and the two elementary changes.\<close>

definition kv_get :: "kv \<Rightarrow> kvkey \<Rightarrow> jsval option" where
  "kv_get s k = map_of s k"

definition kv_set :: "kv \<Rightarrow> kvkey \<Rightarrow> jsval \<Rightarrow> kv" where
  "kv_set s k v = AList.update k v s"

definition kv_delete :: "kv \<Rightarrow> kvkey \<Rightarrow> kv" where
  "kv_delete s k = AList.delete k s"

text \<open>
  \<^verbatim>\<open>kv.get(key)\<close>: the entry for the key. \<open>entry_found\<close> is \<open>None\<close> when the store holds
  nothing under the key; \<open>entry_value\<close> is the property \<^verbatim>\<open>.value\<close> of the entry, which is
  \<^verbatim>\<open>null\<close> in that case.
\<close>

record kv_entry =
  entry_key :: kvkey
  entry_found :: "jsval option"

definition entry_value :: "kv_entry \<Rightarrow> jsval" where
  "entry_value e = (case entry_found e of None \<Rightarrow> Null | Some v \<Rightarrow> v)"

definition kv_get_entry :: "kv \<Rightarrow> kvkey \<Rightarrow> error + kv_entry" where
  "kv_get_entry s k =
     (if valid_key k then Inr \<lparr>entry_key = k, entry_found = kv_get s k\<rparr> else Inl TypeError)"

text \<open>\<^verbatim>\<open>kv.set(key, value)\<close>: a single write, with the result it reports.\<close>

definition kv_set_commit :: "kv \<Rightarrow> kvkey \<Rightarrow> jsval \<Rightarrow> kv \<times> (error + commit_result)" where
  "kv_set_commit s k v =
     (if valid_key k then (kv_set s k v, Inr Committed) else (s, Inl TypeError))"

text \<open>A key lies below a prefix when it starts with the parts of the prefix and has more.\<close>

definition key_below :: "kvkey \<Rightarrow> kvkey \<Rightarrow> bool" where
  "key_below p k \<longleftrightarrow> length p < length k \<and> take (length p) k = p"

definition kv_list :: "kv \<Rightarrow> kvkey \<Rightarrow> (kvkey \<times> jsval) list" where
  "kv_list s p = filter (\<lambda>(k, v). key_below p k) s"

text \<open>
  \<^verbatim>\<open>kv.atomic()\<close>: a transaction is the list of mutations chained so far; \<open>commit\<close>
  applies them in order, all of them or, when a key is not valid, none.
\<close>

datatype mutation = SetOp kvkey jsval | DeleteOp kvkey

type_synonym atomic_op = "mutation list"

fun mutation_key :: "mutation \<Rightarrow> kvkey" where
  "mutation_key (SetOp k v) = k"
| "mutation_key (DeleteOp k) = k"

definition atomic :: "atomic_op" where
  "atomic = []"

definition op_set :: "atomic_op \<Rightarrow> kvkey \<Rightarrow> jsval \<Rightarrow> atomic_op" where
  "op_set op k v = op @ [SetOp k v]"

definition op_delete :: "atomic_op \<Rightarrow> kvkey \<Rightarrow> atomic_op" where
  "op_delete op k = op @ [DeleteOp k]"

fun apply_mutation :: "mutation \<Rightarrow> kv \<Rightarrow> kv" where
  "apply_mutation (SetOp k v) s = kv_set s k v"
| "apply_mutation (DeleteOp k) s = kv_delete s k"

definition commit :: "kv \<Rightarrow> atomic_op \<Rightarrow> kv \<times> (error + commit_result)" where
  "commit s op =
     (if list_all (\<lambda>mu. valid_key (mutation_key mu)) op
      then (fold apply_mutation op s, Inr Committed)
      else (s, Inl TypeError))"

section \<open>The model class\<close>

text \<open>
  \<^verbatim>\<open>class Model\<close> of \<^verbatim>\<open>src/lib/model.ts\<close>. The schema is stored by the constructor and
  never read by a method, so the record keeps the collection key and the indexed fields.
  Every method returns, with its result, the store as the call leaves it; a call that
  fails leaves it as it was.
\<close>

record model =
  key :: string
  indexes :: "string list"

text \<open>The template literal \<^verbatim>\<open>`${this.key}_by_${index}`\<close>.\<close>

definition index_name :: "model \<Rightarrow> string \<Rightarrow> string" where
  "index_name m index = key m @ ''_by_'' @ index"

text \<open>
  \<^verbatim>\<open>create\<close>. The identifier that \<^verbatim>\<open>crypto.randomUUID()\<close> generates is the parameter
  \<open>ident\<close>. \<open>create_op\<close> is the transaction the method builds: the primary write, then
  the loop over \<^verbatim>\<open>this.indexes\<close>; \<open>create\<close> commits it and returns what the commit returns.
\<close>

definition create_op :: "model \<Rightarrow> string \<Rightarrow> obj \<Rightarrow> atomic_op" where
  "create_op m ident val =
     (let k = [Str (key m), Str ident];
          data = (spread Map.empty val)(''id'' \<mapsto> Str ident);
          op = op_set atomic k (Obj data)
      in fold (\<lambda>index op.
                 let indexKey = [Str (index_name m index), get_prop val index]
                 in op_set op indexKey (Str ident))
           (indexes m) op)"

definition create :: "model \<Rightarrow> kv \<Rightarrow> string \<Rightarrow> obj \<Rightarrow> kv \<times> (error + commit_result)" where
  "create m s ident val = commit s (create_op m ident val)"

text \<open>\<^verbatim>\<open>find\<close>: the entry of a point read of the primary key.\<close>

definition find_id :: "model \<Rightarrow> kv \<Rightarrow> string \<Rightarrow> error + kv_entry" where
  "find_id m s ident = kv_get_entry s [Str (key m), Str ident]"

text \<open>\<^verbatim>\<open>findAll\<close>: the list below the one-part prefix \<^verbatim>\<open>[this.key]\<close>, with default options.\<close>

definition findAll :: "model \<Rightarrow> kv \<Rightarrow> (kvkey \<times> jsval) list" where
  "findAll m s = kv_list s [Str (key m)]"

text \<open>
  \<^verbatim>\<open>findByIndex\<close>. \<open>Inr None\<close> is the early \<^verbatim>\<open>return;\<close> (the caller gets \<^verbatim>\<open>undefined\<close>);
  otherwise the caller gets the entry of the second read, as \<^verbatim>\<open>kv.get\<close> returns it.
\<close>

definition findByIndex :: "model \<Rightarrow> kv \<Rightarrow> string \<Rightarrow> jsval \<Rightarrow> error + kv_entry option" where
  "findByIndex m s index val =
     (let indexKey = [Str (index_name m index), val]
      in case kv_get_entry s indexKey of
           Inl e \<Rightarrow> Inl e
         | Inr ident \<Rightarrow>
             if \<not> truthy (entry_value ident) then Inr None
             else case kv_get_entry s [Str (key m), entry_value ident] of
                    Inl e \<Rightarrow> Inl e
                  | Inr r \<Rightarrow> Inr (Some r))"

text \<open>
  \<^verbatim>\<open>update\<close>. The method is not \<^verbatim>\<open>async\<close> and does not await \<^verbatim>\<open>kv.get(key)\<close>: \<open>data\<close> is
  the promise of the read, not the entry. The guard \<^verbatim>\<open>if (!data)\<close> tests that promise and
  the spread \<^verbatim>\<open>{ ...data, ...value }\<close> copies the promise's own properties. The write is a
  plain \<^verbatim>\<open>kv.set\<close>, whose result the method returns; \<open>None\<close> is the \<^verbatim>\<open>return;\<close> of the
  guard.
\<close>

definition update ::
  "model \<Rightarrow> kv \<Rightarrow> string \<Rightarrow> obj \<Rightarrow> kv \<times> (error + commit_result) option" where
  "update m s ident val =
     (let k = [Str (key m), Str ident];
          data = Promise (kv_get_entry s k)
      in if \<not> promise_truthy data then (s, None)
         else let newData = spread (spread Map.empty (promise_props data)) val
              in case kv_set_commit s k (Obj newData) of (s', r) \<Rightarrow> (s', Some r))"

text \<open>
  \<^verbatim>\<open>delete\<close>. \<open>delete_op\<close> is the transaction built from the record that was read: the
  primary delete, then the loop over \<^verbatim>\<open>this.indexes\<close>. \<open>None\<close> is the early \<^verbatim>\<open>return;\<close>.
\<close>

definition delete_op :: "model \<Rightarrow> kvkey \<Rightarrow> jsval \<Rightarrow> atomic_op" where
  "delete_op m k data_value =
     (let op = op_delete atomic k
      in fold (\<lambda>index op.
                 let indexKey = [Str (index_name m index), field data_value index]
                 in op_delete op indexKey)
           (indexes m) op)"

definition delete :: "model \<Rightarrow> kv \<Rightarrow> string \<Rightarrow> kv \<times> (error + commit_result) option" where
  "delete m s ident =
     (let k = [Str (key m), Str ident]
      in case kv_get_entry s k of
           Inl e \<Rightarrow> (s, Some (Inl e))
         | Inr data \<Rightarrow>
             if \<not> truthy (entry_value data) then (s, None)
             else case commit s (delete_op m k (entry_value data)) of
                    (s', r) \<Rightarrow> (s', Some r))"

section \<open>Sequences of calls\<close>

datatype call = CreateCall string obj | UpdateCall string obj | DeleteCall string

fun run_call :: "model \<Rightarrow> call \<Rightarrow> kv \<Rightarrow> kv" where
  "run_call m (CreateCall ident val) s = fst (create m s ident val)"
| "run_call m (UpdateCall ident val) s = fst (update m s ident val)"
| "run_call m (DeleteCall ident) s = fst (delete m s ident)"

definition run :: "model \<Rightarrow> call list \<Rightarrow> kv \<Rightarrow> kv" where
  "run m cs s = fold (run_call m) cs s"

section \<open>Keys and sample data\<close>

text \<open>
  The two key shapes the methods build: \<^verbatim>\<open>[this.key, id]\<close> for a record and
  \<^verbatim>\<open>[`${this.key}_by_${index}`, value]\<close> for an index entry.
\<close>

abbreviation index_key :: "model \<Rightarrow> string \<Rightarrow> jsval \<Rightarrow> kvkey" where
  "index_key m index v \<equiv> [Str (index_name m index), v]"

abbreviation primary_key :: "model \<Rightarrow> string \<Rightarrow> kvkey" where
  "primary_key m ident \<equiv> [Str (key m), Str ident]"

text \<open>
  The collection of the class documentation, \<^verbatim>\<open>model("user", userSchema, ["email"])\<close>, and
  a few records for it.
\<close>

definition user_model :: model where
  "user_model = \<lparr>key = ''user'', indexes = [''email'']\<rparr>"

definition john :: obj where
  "john = [''name'' \<mapsto> Str ''John Doe'', ''email'' \<mapsto> Str ''test@test.com'']"

definition no_email :: obj where
  "no_email = [''name'' \<mapsto> Str ''John Doe'']"

definition xy :: obj where
  "xy = [''email'' \<mapsto> Str ''x@y.com'']"

definition zy :: obj where
  "zy = [''email'' \<mapsto> Str ''z@y.com'']"

definition ab :: obj where
  "ab = [''a'' \<mapsto> Num 1, ''b'' \<mapsto> Num 2]"

definition a9 :: obj where
  "a9 = [''a'' \<mapsto> Num 9]"

text \<open>A collection without indexed fields.\<close>

definition item_model :: model where
  "item_model = \<lparr>key = ''item'', indexes = []\<rparr>"

text \<open>A store whose only entry is an index entry pointing at a record that does not exist.\<close>

definition dangling :: kv where
  "dangling = [([Str ''user_by_email'', Str ''test@test.com''], Str ''gone'')]"

text \<open>
  A store that holds one record of the user collection, without the optional field
  \<^verbatim>\<open>email\<close>, and no index entry.
\<close>

definition lacking :: kv where
  "lacking = [([Str ''user'', Str ''u1''], Obj (no_email(''id'' \<mapsto> Str ''u1'')))]"

section \<open>Batches of calls and the index invariant\<close>

text \<open>
  A value or record is indexable when it holds, at every indexed field, a value that can
  be a key part; these are the values whose index keys the store accepts.
\<close>

definition indexable :: "model \<Rightarrow> obj \<Rightarrow> bool" where
  "indexable m val \<longleftrightarrow> list_all (\<lambda>index. key_part_ok (get_prop val index)) (indexes m)"










definition jane :: obj where
  "jane = [''name'' \<mapsto> Str ''Jane Doe'', ''email'' \<mapsto> Str ''jane@test.com'']"

section \<open>Reading the store after a write\<close>

lemma kv_get_set: "kv_get (kv_set s k v) k' = (if k' = k then Some v else kv_get s k')"
  by (simp add: kv_get_def kv_set_def update_conv')


lemma kv_get_empty: "kv_get [] k = None"
  by (simp add: kv_get_def)

lemma fold_op_set:
  "fold (\<lambda>x op. op_set op (kf x) (vf x)) xs op = op @ map (\<lambda>x. SetOp (kf x) (vf x)) xs"
  by (induction xs arbitrary: op) (simp_all add: op_set_def)

lemma fold_op_delete:
  "fold (\<lambda>x op. op_delete op (kf x)) xs op = op @ map (\<lambda>x. DeleteOp (kf x)) xs"
  by (induction xs arbitrary: op) (simp_all add: op_delete_def)

lemma create_op_eq:
  "create_op m ident val =
     SetOp (primary_key m ident) (Obj (val(''id'' \<mapsto> Str ident)))
     # map (\<lambda>index. SetOp (index_key m index (get_prop val index)) (Str ident)) (indexes m)"
  using fold_op_set [of "\<lambda>index. [Str (index_name m index), get_prop val index]"
      "\<lambda>index. Str ident" "indexes m"]
  by (simp add: create_op_def Let_def atomic_def op_set_def spread_def)

lemma delete_op_eq:
  "delete_op m k r =
     DeleteOp k # map (\<lambda>index. DeleteOp (index_key m index (field r index))) (indexes m)"
  using fold_op_delete [of "\<lambda>index. [Str (index_name m index), field r index]" "indexes m"]
  by (simp add: delete_op_def Let_def atomic_def op_delete_def)

lemma get_fold_sets:
  "kv_get (fold apply_mutation (map (\<lambda>x. SetOp (kf x) v) xs) s) k =
     (if k \<in> kf ` set xs then Some v else kv_get s k)"
  by (induction xs arbitrary: s) (auto simp: kv_get_set)


lemma index_name_neq_key [simp]: "index_name m index \<noteq> key m"
  by (simp add: index_name_def)

lemma key_neq_index_name [simp]: "key m \<noteq> index_name m index"
  by (simp add: index_name_def)

lemma index_name_inj [simp]: "index_name m f = index_name m g \<longleftrightarrow> f = g"
  by (simp add: index_name_def)

lemma primary_notin_index_keys [simp]:
  "primary_key m ident \<notin> (\<lambda>index. index_key m index (g index)) ` A"
  by auto

lemma index_key_in_image:
  "index_key m f v \<in> (\<lambda>index. index_key m index (g index)) ` A \<longleftrightarrow> f \<in> A \<and> v = g f"
  by auto

lemma valid_primary_key [simp]: "valid_key (primary_key m ident)"
  by (simp add: valid_key_def)

lemma valid_index_key [simp]: "valid_key (index_key m index v) \<longleftrightarrow> key_part_ok v"
  by (simp add: valid_key_def)

lemma find_id_eq:
  "find_id m s ident
     = Inr \<lparr>entry_key = primary_key m ident, entry_found = kv_get s (primary_key m ident)\<rparr>"
  by (simp add: find_id_def kv_get_entry_def)

lemma create_op_valid:
  "list_all (\<lambda>mu. valid_key (mutation_key mu)) (create_op m ident val) \<longleftrightarrow> indexable m val"
  by (simp add: create_op_eq indexable_def list_all_iff)

lemma delete_op_valid:
  "list_all (\<lambda>mu. valid_key (mutation_key mu)) (delete_op m (primary_key m ident) (Obj r))
     \<longleftrightarrow> indexable m r"
  by (simp add: delete_op_eq indexable_def list_all_iff)

lemma create_commits:
  "indexable m val \<Longrightarrow>
   create m s ident val = (fold apply_mutation (create_op m ident val) s, Inr Committed)"
  by (simp add: create_def commit_def create_op_valid)

lemma create_rejected:
  "\<not> indexable m val \<Longrightarrow> create m s ident val = (s, Inl TypeError)"
  by (simp add: create_def commit_def create_op_valid)

lemma get_create:
  "indexable m val \<Longrightarrow>
   kv_get (fst (create m s ident val)) k =
     (if k \<in> (\<lambda>index. index_key m index (get_prop val index)) ` set (indexes m)
      then Some (Str ident)
      else if k = primary_key m ident then Some (Obj (val(''id'' \<mapsto> Str ident)))
      else kv_get s k)"
  by (simp add: create_commits create_op_eq get_fold_sets kv_get_set)


lemma delete_live:
  "kv_get s (primary_key m ident) = Some (Obj r) \<Longrightarrow>
   delete m s ident =
     (fst (commit s (delete_op m (primary_key m ident) (Obj r))),
      Some (snd (commit s (delete_op m (primary_key m ident) (Obj r)))))"
  by (simp add: delete_def Let_def kv_get_entry_def entry_value_def split_def)


lemma delete_rejected:
  "kv_get s (primary_key m ident) = Some (Obj r) \<Longrightarrow> \<not> indexable m r \<Longrightarrow>
   delete m s ident = (s, Some (Inl TypeError))"
  by (simp add: delete_live commit_def delete_op_valid)


lemma update_eq:
  "update m s ident val = (kv_set s (primary_key m ident) (Obj val), Some (Inr Committed))"
  by (simp add: update_def Let_def spread_def kv_set_commit_def)

lemma get_update:
  "kv_get (fst (update m s ident val)) k =
     (if k = primary_key m ident then Some (Obj val) else kv_get s k)"
  by (simp add: update_eq kv_get_set)


lemma user_model_simps:
  "key user_model = ''user''"
  "indexes user_model = [''email'']"
  "index_name user_model f = ''user_by_'' @ f"
  by (simp_all add: user_model_def index_name_def)

lemma item_model_simps:
  "key item_model = ''item''"
  "indexes item_model = []"
  by (simp_all add: item_model_def)

lemma indexable_samples:
  "indexable user_model john"
  "indexable user_model jane"
  "indexable user_model xy"
  "\<not> indexable user_model no_email"
  "\<not> indexable user_model (no_email(''id'' \<mapsto> Str ''u1''))"
  "indexable item_model ab"
  by (simp_all add: indexable_def user_model_simps item_model_simps get_prop_def
      john_def jane_def xy_def no_email_def)


section \<open>Create\<close>

text \<open>
  Claim C6. Key layout and atomicity of create: for every input value, create hands one
  transaction to one commit: the write of the primary entry under the key (collection
  name, record id), holding the value merged with the id, and, for every declared indexed
  field, the write of an index entry under the key (collection name + "_by_" + field name,
  field value) holding the record identifier. Either all of these writes land, which is
  the case when every indexed field of the value holds a value that can be a key part,
  and then each of them reads back; or none does, and create fails leaving the store as
  it was.
\<close>

theorem create_key_layout:
  "create m s ident val =
     commit s
       (SetOp [Str (key m), Str ident] (Obj (val(''id'' \<mapsto> Str ident)))
        # map (\<lambda>f. SetOp [Str (key m @ ''_by_'' @ f), get_prop val f] (Str ident)) (indexes m))
   \<and> (if \<forall>f \<in> set (indexes m). key_part_ok (get_prop val f)
      then snd (create m s ident val) = Inr Committed
         \<and> kv_get (fst (create m s ident val)) [Str (key m), Str ident]
             = Some (Obj (val(''id'' \<mapsto> Str ident)))
         \<and> (\<forall>f \<in> set (indexes m).
              kv_get (fst (create m s ident val)) [Str (key m @ ''_by_'' @ f), get_prop val f]
                = Some (Str ident))
      else create m s ident val = (s, Inl TypeError))"
proof -
  have ops: "create m s ident val =
     commit s
       (SetOp [Str (key m), Str ident] (Obj (val(''id'' \<mapsto> Str ident)))
        # map (\<lambda>f. SetOp [Str (key m @ ''_by_'' @ f), get_prop val f] (Str ident)) (indexes m))"
    by (simp add: create_def create_op_eq index_name_def)
  have cond: "(\<forall>f \<in> set (indexes m). key_part_ok (get_prop val f)) \<longleftrightarrow> indexable m val"
    by (simp add: indexable_def list_all_iff)
  show ?thesis
  proof (cases "indexable m val")
    case True
    have res: "snd (create m s ident val) = Inr Committed"
      using True by (simp add: create_commits)
    have prim: "kv_get (fst (create m s ident val)) (primary_key m ident)
         = Some (Obj (val(''id'' \<mapsto> Str ident)))"
      using True by (simp add: get_create)
    have idx: "kv_get (fst (create m s ident val)) [Str (key m @ ''_by_'' @ f), get_prop val f]
            = Some (Str ident)" if "f \<in> set (indexes m)" for f
      using that True get_create [of m val s ident "index_key m f (get_prop val f)"]
      by (simp add: index_key_in_image index_name_def)
    from ops res prim idx True show ?thesis
      by (simp add: cond)
  next
    case False
    then have "create m s ident val = (s, Inl TypeError)"
      by (rule create_rejected)
    with ops False show ?thesis
      by (simp add: cond)
  qed
qed

theorem create_key_layout_witness:
  "indexes user_model = [''email'']
   \<and> key_part_ok (get_prop john ''email'')
   \<and> kv_get (fst (create user_model [] ''u1'' john)) [Str ''user_by_email'', Str ''test@test.com'']
       = Some (Str ''u1'')
   \<and> \<not> key_part_ok (get_prop no_email ''email'')
   \<and> create user_model [] ''u1'' no_email = ([], Inl TypeError)"
proof -
  have ok: "\<forall>f \<in> set (indexes user_model). key_part_ok (get_prop john f)"
    by (simp add: user_model_simps get_prop_def john_def)
  have mem: "''email'' \<in> set (indexes user_model)"
    by (simp add: user_model_simps)
  have bad: "\<not> (\<forall>f \<in> set (indexes user_model). key_part_ok (get_prop no_email f))"
    by (simp add: user_model_simps get_prop_def no_email_def)
  have "snd (create user_model [] ''u1'' john) = Inr Committed
       \<and> kv_get (fst (create user_model [] ''u1'' john)) [Str (key user_model), Str ''u1'']
           = Some (Obj (john(''id'' \<mapsto> Str ''u1'')))
       \<and> (\<forall>f \<in> set (indexes user_model).
            kv_get (fst (create user_model [] ''u1'' john))
              [Str (key user_model @ ''_by_'' @ f), get_prop john f] = Some (Str ''u1''))"
    using create_key_layout [of user_model "[]" "''u1''" john, THEN conjunct2]
    unfolding if_P [OF ok] .
  then have "\<forall>f \<in> set (indexes user_model).
          kv_get (fst (create user_model [] ''u1'' john))
            [Str (key user_model @ ''_by_'' @ f), get_prop john f] = Some (Str ''u1'')"
    by (rule conjunct2 [THEN conjunct2])
  then have "kv_get (fst (create user_model [] ''u1'' john))
          [Str (key user_model @ ''_by_'' @ ''email''), get_prop john ''email''] = Some (Str ''u1'')"
    using mem by (rule bspec)
  then have a: "kv_get (fst (create user_model [] ''u1'' john))
      [Str ''user_by_email'', Str ''test@test.com''] = Some (Str ''u1'')"
    by (simp add: user_model_simps john_def get_prop_def)
  have b: "create user_model [] ''u1'' no_email = ([], Inl TypeError)"
    using create_key_layout [of user_model "[]" "''u1''" no_email, THEN conjunct2]
    unfolding if_not_P [OF bad] .
  have ix: "indexes user_model = [''email'']"
    by (simp add: user_model_simps)
  have okj: "key_part_ok (get_prop john ''email'')"
    by (simp add: get_prop_def john_def)
  have badn: "\<not> key_part_ok (get_prop no_email ''email'')"
    by (simp add: get_prop_def no_email_def)
  show ?thesis
    by (intro conjI ix okj a badn b)
qed

text \<open>
  Claim C5, as amended. Create returns the outcome of the commit, which carries no
  identifier. When every indexed field of the input value holds a value that can be a key
  part, the commit succeeds and the record it committed is the input value plus the
  identifier generated inside create: find with that identifier returns it. Otherwise
  create fails and writes nothing.
\<close>

theorem create_then_find:
  "(indexable m val \<longrightarrow>
      snd (create m s ident val) = Inr Committed
      \<and> find_id m (fst (create m s ident val)) ident
          = Inr \<lparr>entry_key = [Str (key m), Str ident],
                 entry_found = Some (Obj (val(''id'' \<mapsto> Str ident)))\<rparr>)
   \<and> (\<not> indexable m val \<longrightarrow> create m s ident val = (s, Inl TypeError))"
proof (rule conjI; rule impI)
  assume ok: "indexable m val"
  show "snd (create m s ident val) = Inr Committed
      \<and> find_id m (fst (create m s ident val)) ident
          = Inr \<lparr>entry_key = [Str (key m), Str ident],
                 entry_found = Some (Obj (val(''id'' \<mapsto> Str ident)))\<rparr>"
  proof
    show "snd (create m s ident val) = Inr Committed"
      using ok by (simp add: create_commits)
    show "find_id m (fst (create m s ident val)) ident
          = Inr \<lparr>entry_key = [Str (key m), Str ident],
                 entry_found = Some (Obj (val(''id'' \<mapsto> Str ident)))\<rparr>"
      using ok by (simp add: find_id_eq get_create)
  qed
next
  assume "\<not> indexable m val"
  then show "create m s ident val = (s, Inl TypeError)"
    by (rule create_rejected)
qed

theorem create_then_find_witness:
  "indexable user_model john
   \<and> snd (create user_model [] ''u1'' john) = Inr Committed
   \<and> find_id user_model (fst (create user_model [] ''u1'' john)) ''u1''
       = Inr \<lparr>entry_key = [Str (key user_model), Str ''u1''],
              entry_found = Some (Obj (john(''id'' \<mapsto> Str ''u1'')))\<rparr>"
proof -
  have ok: "indexable user_model john"
    by (rule indexable_samples)
  note facts = create_then_find [of user_model john "[]" "''u1''", THEN conjunct1, THEN mp, OF ok]
  show ?thesis
    by (intro conjI ok facts [THEN conjunct1] facts [THEN conjunct2])
qed

text \<open>
  Claim C5 as stated fails: two runs of create that differ only in the generated
  identifier return the same result, and the record of one run cannot be found with the
  identifier of the other, so the result of create does not tell the caller the
  identifier; and for a value without the indexed field create commits no record at all.
\<close>

theorem create_result_counterexample:
  "snd (create user_model [] ''u1'' john) = snd (create user_model [] ''u2'' john)
   \<and> entry_found (projr (find_id user_model (fst (create user_model [] ''u1'' john)) ''u1''))
       = Some (Obj (john(''id'' \<mapsto> Str ''u1'')))
   \<and> entry_found (projr (find_id user_model (fst (create user_model [] ''u1'' john)) ''u2''))
       = None
   \<and> entry_found (projr (find_id user_model (fst (create user_model [] ''u2'' john)) ''u1''))
       = None
   \<and> create user_model [] ''u1'' no_email = ([], Inl TypeError)"
proof -
  have a: "snd (create user_model [] ''u1'' john) = snd (create user_model [] ''u2'' john)"
    by (simp add: create_commits indexable_samples)
  have b: "entry_found (projr (find_id user_model (fst (create user_model [] ''u1'' john)) ''u1''))
       = Some (Obj (john(''id'' \<mapsto> Str ''u1'')))"
    by (simp add: find_id_eq get_create indexable_samples)
  have c: "entry_found (projr (find_id user_model (fst (create user_model [] ''u1'' john)) ''u2''))
       = None"
    by (simp add: find_id_eq get_create indexable_samples kv_get_empty)
  have d: "entry_found (projr (find_id user_model (fst (create user_model [] ''u2'' john)) ''u1''))
       = None"
    by (simp add: find_id_eq get_create indexable_samples kv_get_empty)
  have e: "create user_model [] ''u1'' no_email = ([], Inl TypeError)"
    by (simp add: create_rejected indexable_samples)
  show ?thesis
    by (intro conjI a b c d e)
qed

section \<open>Delete\<close>



text \<open>
  Claim C8, as amended. For a live record that lacks a declared indexed field, delete does
  not skip the field: the transaction it builds holds the deletion of the primary key and
  one deletion for every declared indexed field, and the key for the missing field is
  built from the missing value, \<^verbatim>\<open>undefined\<close>. The store rejects that key, so the call fails
  with a \<^verbatim>\<open>TypeError\<close> and nothing is deleted: the store is left as it was.
\<close>

theorem delete_missing_field:
  assumes "kv_get s [Str (key m), Str ident] = Some (Obj r)"
    and "f \<in> set (indexes m)"
    and "r f = None"
  shows "delete_op m [Str (key m), Str ident] (Obj r) =
           DeleteOp [Str (key m), Str ident]
           # map (\<lambda>g. DeleteOp [Str (key m @ ''_by_'' @ g), get_prop r g]) (indexes m)
         \<and> DeleteOp [Str (key m @ ''_by_'' @ f), Undefined]
             \<in> set (delete_op m [Str (key m), Str ident] (Obj r))
         \<and> delete m s ident = (s, Some (Inl TypeError))"
proof -
  let ?k = "[Str (key m), Str ident]"
  have undef: "get_prop r f = Undefined"
    using assms(3) by (simp add: get_prop_def)
  have ops: "delete_op m ?k (Obj r) =
      DeleteOp ?k # map (\<lambda>g. DeleteOp [Str (key m @ ''_by_'' @ g), get_prop r g]) (indexes m)"
    by (simp add: delete_op_eq index_name_def)
  have "DeleteOp (index_key m f Undefined)
      \<in> (\<lambda>index. DeleteOp (index_key m index (get_prop r index))) ` set (indexes m)"
    using assms(2) undef by force
  then have mem: "DeleteOp [Str (key m @ ''_by_'' @ f), Undefined] \<in> set (delete_op m ?k (Obj r))"
    by (simp add: delete_op_eq index_name_def)
  have "\<not> indexable m r"
    using assms(2) undef by (auto simp: indexable_def list_all_iff intro!: bexI [of _ f])
  with assms(1) have rej: "delete m s ident = (s, Some (Inl TypeError))"
    by (rule delete_rejected)
  show ?thesis
    using ops mem rej by blast
qed

theorem delete_missing_field_witness:
  "kv_get lacking [Str (key user_model), Str ''u1''] = Some (Obj (no_email(''id'' \<mapsto> Str ''u1'')))
   \<and> ''email'' \<in> set (indexes user_model)
   \<and> (no_email(''id'' \<mapsto> Str ''u1'')) ''email'' = None
   \<and> DeleteOp [Str (key user_model @ ''_by_'' @ ''email''), Undefined]
       \<in> set (delete_op user_model [Str (key user_model), Str ''u1'']
                (Obj (no_email(''id'' \<mapsto> Str ''u1''))))
   \<and> delete user_model lacking ''u1'' = (lacking, Some (Inl TypeError))"
proof -
  let ?r = "no_email(''id'' \<mapsto> Str ''u1'')"
  have live: "kv_get lacking [Str (key user_model), Str ''u1''] = Some (Obj ?r)"
    by (simp add: lacking_def kv_get_def user_model_simps)
  have mem: "''email'' \<in> set (indexes user_model)"
    by (simp add: user_model_simps)
  have none: "?r ''email'' = None"
    by (simp add: no_email_def)
  note facts = delete_missing_field [OF live mem none]
  show ?thesis
    by (intro conjI live mem none facts [THEN conjunct2, THEN conjunct1]
        facts [THEN conjunct2, THEN conjunct2])
qed

text \<open>
  Claim C8 as stated fails: for a stored record without the indexed field \<^verbatim>\<open>email\<close>, the
  transaction of delete holds a deletion of the index key built from \<^verbatim>\<open>undefined\<close>, the
  call fails, and the primary record is still there afterwards. The same happens to a
  record that was created with the field and lost it through update.
\<close>

theorem delete_missing_field_counterexample:
  "entry_found (projr (find_id user_model lacking ''u1''))
     = Some (Obj (no_email(''id'' \<mapsto> Str ''u1'')))
   \<and> (no_email(''id'' \<mapsto> Str ''u1'')) ''email'' = None
   \<and> delete_op user_model [Str ''user'', Str ''u1''] (Obj (no_email(''id'' \<mapsto> Str ''u1'')))
       = [DeleteOp [Str ''user'', Str ''u1''], DeleteOp [Str ''user_by_email'', Undefined]]
   \<and> delete user_model lacking ''u1'' = (lacking, Some (Inl TypeError))
   \<and> entry_found (projr (find_id user_model (fst (delete user_model lacking ''u1'')) ''u1''))
     = Some (Obj (no_email(''id'' \<mapsto> Str ''u1'')))
   \<and> delete user_model
         (fst (update user_model (fst (create user_model [] ''u1'' john)) ''u1'' no_email)) ''u1''
       = (fst (update user_model (fst (create user_model [] ''u1'' john)) ''u1'' no_email),
          Some (Inl TypeError))"
proof -
  let ?r = "no_email(''id'' \<mapsto> Str ''u1'')"
  have live: "kv_get lacking (primary_key user_model ''u1'') = Some (Obj ?r)"
    by (simp add: lacking_def kv_get_def user_model_simps)
  have a: "entry_found (projr (find_id user_model lacking ''u1'')) = Some (Obj ?r)"
    using live by (simp add: find_id_eq)
  have b: "?r ''email'' = None"
    by (simp add: no_email_def)
  have c: "delete_op user_model [Str ''user'', Str ''u1''] (Obj ?r)
       = [DeleteOp [Str ''user'', Str ''u1''], DeleteOp [Str ''user_by_email'', Undefined]]"
    using delete_op_eq [of user_model "[Str ''user'', Str ''u1'']"]
    by (simp add: user_model_simps get_prop_def no_email_def)
  have d: "delete user_model lacking ''u1'' = (lacking, Some (Inl TypeError))"
    using live indexable_samples(5) by (rule delete_rejected)
  have e: "entry_found (projr (find_id user_model (fst (delete user_model lacking ''u1'')) ''u1''))
     = Some (Obj ?r)"
    using live by (simp add: d find_id_eq)
  have "kv_get (fst (update user_model (fst (create user_model [] ''u1'' john)) ''u1'' no_email))
      (primary_key user_model ''u1'') = Some (Obj no_email)"
    by (simp add: get_update)
  then have f: "delete user_model
         (fst (update user_model (fst (create user_model [] ''u1'' john)) ''u1'' no_email)) ''u1''
       = (fst (update user_model (fst (create user_model [] ''u1'' john)) ''u1'' no_email),
          Some (Inl TypeError))"
    using indexable_samples(4) by (rule delete_rejected)
  show ?thesis
    by (intro conjI a b c d e f)
qed

section \<open>Lookup through an index\<close>

text \<open>
  Claim C9, as amended. For a lookup value that can be a key part: if the index entry is
  absent, findByIndex returns \<^verbatim>\<open>undefined\<close>; if the index entry holds an identifier whose
  primary record is absent, findByIndex returns the entry of the primary read as the store
  hands it back, which holds no record (its value is \<^verbatim>\<open>null\<close>) but whose key is
  (collection name, identifier). For a lookup value that cannot be a key part the read
  fails with a \<^verbatim>\<open>TypeError\<close>.
\<close>

theorem findByIndex_absent:
  "(key_part_ok v \<and> kv_get s [Str (key m @ ''_by_'' @ f), v] = None
      \<longrightarrow> findByIndex m s f v = Inr None)
   \<and> (\<forall>i. key_part_ok v \<and> kv_get s [Str (key m @ ''_by_'' @ f), v] = Some (Str i) \<and> i \<noteq> []
          \<and> kv_get s [Str (key m), Str i] = None
        \<longrightarrow> findByIndex m s f v
            = Inr (Some \<lparr>entry_key = [Str (key m), Str i], entry_found = None\<rparr>))
   \<and> (\<not> key_part_ok v \<longrightarrow> findByIndex m s f v = Inl TypeError)"
  by (simp add: findByIndex_def index_name_def kv_get_entry_def entry_value_def valid_key_def)

theorem findByIndex_absent_witness:
  "key_part_ok (Str ''test@test.com'')
   \<and> kv_get [] [Str (key user_model @ ''_by_'' @ ''email''), Str ''test@test.com''] = None
   \<and> findByIndex user_model [] ''email'' (Str ''test@test.com'') = Inr None
   \<and> kv_get dangling [Str (key user_model @ ''_by_'' @ ''email''), Str ''test@test.com'']
       = Some (Str ''gone'')
   \<and> ''gone'' \<noteq> []
   \<and> kv_get dangling [Str (key user_model), Str ''gone''] = None
   \<and> findByIndex user_model dangling ''email'' (Str ''test@test.com'')
       = Inr (Some \<lparr>entry_key = [Str (key user_model), Str ''gone''], entry_found = None\<rparr>)
   \<and> \<not> key_part_ok Undefined
   \<and> findByIndex user_model [] ''email'' Undefined = Inl TypeError"
proof -
  have k: "key_part_ok (Str ''test@test.com'')"
    by simp
  have a: "kv_get [] [Str (key user_model @ ''_by_'' @ ''email''), Str ''test@test.com''] = None"
    by (simp add: kv_get_def)
  have b: "kv_get dangling [Str (key user_model @ ''_by_'' @ ''email''), Str ''test@test.com'']
       = Some (Str ''gone'')"
    by (simp add: kv_get_def dangling_def user_model_def)
  have n: "''gone'' \<noteq> []"
    by simp
  have c: "kv_get dangling [Str (key user_model), Str ''gone''] = None"
    by (simp add: kv_get_def dangling_def user_model_def)
  have u: "\<not> key_part_ok Undefined"
    by simp
  have e: "findByIndex user_model [] ''email'' (Str ''test@test.com'') = Inr None"
    using findByIndex_absent [of "Str ''test@test.com''" "[]" user_model "''email''",
        THEN conjunct1] conjI [OF k a]
    by (rule mp)
  have f: "findByIndex user_model dangling ''email'' (Str ''test@test.com'')
       = Inr (Some \<lparr>entry_key = [Str (key user_model), Str ''gone''], entry_found = None\<rparr>)"
    using findByIndex_absent [of "Str ''test@test.com''" dangling user_model "''email''",
        THEN conjunct2, THEN conjunct1, THEN spec, of "''gone''"]
      conjI [OF k conjI [OF b conjI [OF n c]]]
    by (rule mp)
  have g: "findByIndex user_model [] ''email'' Undefined = Inl TypeError"
    using findByIndex_absent [of Undefined "[]" user_model "''email''",
        THEN conjunct2, THEN conjunct2] u
    by (rule mp)
  show ?thesis
    by (intro conjI k a e b n c f u g)
qed

text \<open>
  Claim C9 as stated fails: on a store whose only entry is an index entry naming a record
  that does not exist, the result of findByIndex is not \<^verbatim>\<open>undefined\<close> but an entry, and
  the key of that entry carries the dangling identifier.
\<close>

theorem findByIndex_dangling_counterexample:
  "kv_get dangling [Str ''user_by_email'', Str ''test@test.com''] = Some (Str ''gone'')
   \<and> kv_get dangling [Str ''user'', Str ''gone''] = None
   \<and> findByIndex user_model dangling ''email'' (Str ''test@test.com'')
       = Inr (Some \<lparr>entry_key = [Str ''user'', Str ''gone''], entry_found = None\<rparr>)
   \<and> findByIndex user_model dangling ''email'' (Str ''test@test.com'') \<noteq> Inr None"
  by (simp add: findByIndex_def user_model_simps kv_get_entry_def entry_value_def valid_key_def
      kv_get_def dangling_def)

section \<open>Update\<close>

text \<open>
  For any input, update writes the partial value alone under the primary key and touches
  no other key (\<open>update_eq\<close>, \<open>get_update\<close>), and it returns the result of the write.
\<close>

lemma update_result: "snd (update m s ident val) = Some (Inr Committed)"
  by (simp add: update_eq)

text \<open>
  Claim C2 at a failing input (create with email \<^verbatim>\<open>x@y.com\<close>, then update to
  \<^verbatim>\<open>z@y.com\<close>): the index entry of the old value is still there and leads to the
  overwritten record, and there is no index entry for the new value.
\<close>

theorem update_keeps_stale_index:
  "findByIndex user_model
     (fst (update user_model (fst (create user_model [] ''u1'' xy)) ''u1'' zy))
     ''email'' (Str ''x@y.com'')
     = Inr (Some \<lparr>entry_key = [Str ''user'', Str ''u1''], entry_found = Some (Obj zy)\<rparr>)
   \<and> findByIndex user_model
     (fst (update user_model (fst (create user_model [] ''u1'' xy)) ''u1'' zy))
     ''email'' (Str ''z@y.com'') = Inr None"
proof -
  let ?s = "fst (update user_model (fst (create user_model [] ''u1'' xy)) ''u1'' zy)"
  have old: "kv_get ?s [Str ''user_by_email'', Str ''x@y.com''] = Some (Str ''u1'')"
    using get_create [OF indexable_samples(3), of "[]" "''u1''"
        "[Str ''user_by_email'', Str ''x@y.com'']"]
    by (simp add: get_update user_model_simps xy_def get_prop_def)
  have new: "kv_get ?s [Str ''user_by_email'', Str ''z@y.com''] = None"
    using get_create [OF indexable_samples(3), of "[]" "''u1''"
        "[Str ''user_by_email'', Str ''z@y.com'']"]
    by (simp add: get_update user_model_simps xy_def get_prop_def kv_get_empty)
  have rec: "kv_get ?s [Str ''user'', Str ''u1''] = Some (Obj zy)"
    by (simp add: get_update user_model_simps)
  show ?thesis
    using old new rec
    by (simp add: findByIndex_def Let_def kv_get_entry_def valid_key_def entry_value_def
        user_model_simps)
qed

text \<open>
  Claim C3 at a failing input (in a collection without indexed fields, create
  \<^verbatim>\<open>{a: 1, b: 2}\<close>, then update with \<^verbatim>\<open>{a: 9}\<close>): before the update the stored record
  has both fields and the identifier; after it the stored record is the partial value,
  and the field \<^verbatim>\<open>b\<close> and the identifier are lost.
\<close>

theorem update_drops_other_fields:
  "find_id item_model (fst (create item_model [] ''u1'' ab)) ''u1''
     = Inr \<lparr>entry_key = [Str ''item'', Str ''u1''],
            entry_found = Some (Obj (ab(''id'' \<mapsto> Str ''u1'')))\<rparr>
   \<and> find_id item_model
       (fst (update item_model (fst (create item_model [] ''u1'' ab)) ''u1'' a9)) ''u1''
     = Inr \<lparr>entry_key = [Str ''item'', Str ''u1''], entry_found = Some (Obj a9)\<rparr>
   \<and> field (Obj a9) ''a'' = Num 9
   \<and> field (Obj a9) ''b'' = Undefined
   \<and> field (Obj a9) ''id'' = Undefined"
  by (simp add: find_id_eq get_update get_create indexable_samples item_model_simps a9_def
      get_prop_def)

text \<open>
  Claim C4 at a failing input (update of an identifier that has no record, on the empty
  store): update returns the result of the write, not \<^verbatim>\<open>undefined\<close>, and the store now
  holds a record made of the partial value, which findAll yields.
\<close>

theorem update_fabricates_record:
  "find_id user_model [] ''nope''
     = Inr \<lparr>entry_key = [Str ''user'', Str ''nope''], entry_found = None\<rparr>
   \<and> findAll user_model [] = []
   \<and> update user_model [] ''nope'' a9
       = ([([Str ''user'', Str ''nope''], Obj a9)], Some (Inr Committed))
   \<and> findAll user_model (fst (update user_model [] ''nope'' a9))
       = [([Str ''user'', Str ''nope''], Obj a9)]"
  by (simp add: find_id_eq kv_get_empty findAll_def kv_list_def key_below_def update_eq
      kv_set_def user_model_simps)

section \<open>Enumerating a collection\<close>

lemma key_below_primary [simp]: "key_below [Str (key m)] (primary_key m ident)"
  by (simp add: key_below_def)

lemma key_below_index [simp]: "\<not> key_below [Str (key m)] (index_key m f v)"
  by (simp add: key_below_def)












lemma run_Nil [simp]: "run m [] s = s"
  by (simp add: run_def)

lemma run_Cons [simp]: "run m (c # cs) s = run m cs (run_call m c s)"
  by (simp add: run_def)








section \<open>The index invariant\<close>









end
